theory Spec2Isabelle
  imports Complex_Main "HOL-Library.Word"
begin

section \<open>Reading cluster data: \<open>src/core/ClusterMap.cpp\<close>\<close>

text \<open>
  The three member functions of \<open>ClusterMap\<close> (\<open>readClusterData\<close>, \<open>readTree\<close>,
  \<open>readClu\<close>) are embedded as functions on a record of the object's data members.
  An exception is a value: a function that throws returns the exception together with
  the object as it is left at the \<open>throw\<close>.

  \<^item> \<open>unsigned int\<close> is a 32-bit word.
  \<^item> A flow value (\<open>double\<close>) is the exact decimal number its token denotes; rounding
    to binary64 is left out, since the code only stores the value.
  \<^item> The input file is the list of the lines that \<open>std::getline\<close> yields from the
    \<open>SafeInFile\<close>; opening the file is outside this development.
  \<^item> \<open>Log()\<close> output is left out.
\<close>

type_synonym uint = "32 word"

subsection \<open>The part of \<open>std::istringstream\<close> that the code uses\<close>

text \<open>
  A string stream is the text not yet read and \<open>failbit\<close>. \<open>eofbit\<close> is not kept
  apart: it is set only by a read that has reached the end of the text, and on exhausted
  text every extraction used here fails with or without it.
\<close>

record istringstream =
  buf :: string
  failbit :: bool

definition str :: "string \<Rightarrow> istringstream" where
  \<comment> \<open>\<open>s.clear(); s.str(line);\<close>\<close>
  "str line = \<lparr>buf = line, failbit = False\<rparr>"

definition isspace :: "char \<Rightarrow> bool" where
  \<comment> \<open>the white space of the classic locale: space, \<open>\t \n \v \f \r\<close>\<close>
  "isspace c = (of_char c = (32::nat) \<or> (9 \<le> (of_char c :: nat) \<and> (of_char c :: nat) \<le> 13))"

definition isdigit :: "char \<Rightarrow> bool" where
  "isdigit c = (48 \<le> (of_char c :: nat) \<and> (of_char c :: nat) \<le> 57)"

definition notspace :: "char \<Rightarrow> bool" where
  "notspace c = (if isspace c then False else True)"

fun digits_val :: "nat \<Rightarrow> string \<Rightarrow> nat" where
  \<comment> \<open>the decimal value of a string of digits, most significant digit first\<close>
  "digits_val a [] = a"
| "digits_val a (c # cs) = digits_val (10 * a + (of_char c - 48)) cs"

fun take_sign :: "string \<Rightarrow> bool \<times> string" where
  \<comment> \<open>an optional sign: whether it is \<open>-\<close>, and the text after it\<close>
  "take_sign [] = (False, [])"
| "take_sign (c # cs) =
     (if c = CHR ''-'' then (True, cs)
      else if c = CHR ''+'' then (False, cs)
      else (False, c # cs))"

definition failed :: "string \<Rightarrow> istringstream" where
  "failed rest = \<lparr>buf = rest, failbit = True\<rparr>"

definition good :: "string \<Rightarrow> istringstream" where
  "good rest = \<lparr>buf = rest, failbit = False\<rparr>"

definition extract_string :: "istringstream \<Rightarrow> istringstream \<times> string option" where
  \<comment> \<open>\<open>stream >> std::string\<close>: skip white space, then take the characters up to the
      next white space; fails when there is none\<close>
  "extract_string st =
     (if failbit st then (st, None)
      else
        (let cs = dropWhile isspace (buf st);
             tok = takeWhile notspace cs;
             rest = dropWhile notspace cs
         in if tok = [] then (failed rest, None) else (good rest, Some tok)))"

definition extract_uint :: "istringstream \<Rightarrow> istringstream \<times> uint option" where
  \<comment> \<open>\<open>stream >> unsigned int\<close>: skip white space, an optional sign, then decimal
      digits. No digit, or a value above \<open>UINT_MAX\<close>, sets \<open>failbit\<close>. A leading \<open>-\<close>
      negates the value modulo \<open>2\<^sup>3\<^sup>2\<close> (libstdc++ and libc++).\<close>
  "extract_uint st =
     (if failbit st then (st, None)
      else
        (let cs = dropWhile isspace (buf st)
         in if cs = [] then (failed [], None)
            else
              (case take_sign cs of
                 (neg, body) \<Rightarrow>
                   (let ds = takeWhile isdigit body;
                        rest = dropWhile isdigit body;
                        n = digits_val 0 ds
                    in if ds = [] then (failed rest, None)
                       else if 4294967295 < n then (failed rest, None)
                       else (good rest, Some (if neg then - of_nat n else of_nat n))))))"

definition take_point :: "string \<Rightarrow> string \<times> string" where
  \<comment> \<open>an optional decimal point with the digits after it, and the text after them\<close>
  "take_point cs =
     (case cs of
        [] \<Rightarrow> ([], [])
      | c # cs' \<Rightarrow>
          (if c = CHR ''.'' then (takeWhile isdigit cs', dropWhile isdigit cs')
           else ([], c # cs')))"

definition DBL_OVERFLOW :: rat where
  \<comment> \<open>the least magnitude that rounds to infinity in binary64\<close>
  "DBL_OVERFLOW = 2 ^ 1024 - 2 ^ 970"

definition scale10 :: "rat \<Rightarrow> bool \<Rightarrow> nat \<Rightarrow> rat" where
  "scale10 m eneg e = (if eneg then m / 10 ^ e else m * 10 ^ e)"

definition finish_double :: "bool \<Rightarrow> rat \<Rightarrow> string \<Rightarrow> istringstream \<times> rat option" where
  \<comment> \<open>the value is stored unless it is out of the range of \<open>double\<close>\<close>
  "finish_double neg v rest =
     (if DBL_OVERFLOW \<le> v then (failed rest, None)
      else (good rest, Some (if neg then - v else v)))"

definition extract_double :: "istringstream \<Rightarrow> istringstream \<times> rat option" where
  \<comment> \<open>\<open>stream >> double\<close>: skip white space, an optional sign, digits with an optional
      decimal point, and an optional exponent (\<open>e\<close> or \<open>E\<close>, an optional sign, digits).
      No digit in the mantissa, an exponent without digits, or a value out of range
      sets \<open>failbit\<close>.\<close>
  "extract_double st =
     (if failbit st then (st, None)
      else
        (let cs = dropWhile isspace (buf st)
         in if cs = [] then (failed [], None)
            else
              (case take_sign cs of
                 (neg, body) \<Rightarrow>
                   (let ip = takeWhile isdigit body;
                        r1 = dropWhile isdigit body
                    in case take_point r1 of
                         (fp, r2) \<Rightarrow>
                           (if ip = [] \<and> fp = [] then (failed r2, None)
                            else
                              (let m = rat_of_nat (digits_val 0 (ip @ fp)) / 10 ^ length fp
                               in case r2 of
                                    [] \<Rightarrow> finish_double neg m r2
                                  | c # r3 \<Rightarrow>
                                      (if c = CHR ''e'' \<or> c = CHR ''E'' then
                                         (case take_sign r3 of
                                            (eneg, r4) \<Rightarrow>
                                              (let ep = takeWhile isdigit r4;
                                                   r5 = dropWhile isdigit r4
                                               in if ep = [] then (failed r5, None)
                                                  else finish_double neg
                                                         (scale10 m eneg (digits_val 0 ep)) r5))
                                       else finish_double neg m r2)))))))"

definition getline_delim :: "istringstream \<Rightarrow> char \<Rightarrow> istringstream \<times> string option" where
  \<comment> \<open>\<open>std::getline(stream, s, delim)\<close>: no white space is skipped; the characters up to
      the delimiter or the end of the text are stored and the delimiter is dropped. It
      fails only when it extracts nothing, that is on exhausted text.\<close>
  "getline_delim st d =
     (if failbit st then (st, None)
      else if buf st = [] then (failed [], None)
      else (good (drop 1 (dropWhile (\<lambda>c. c \<noteq> d) (buf st))),
            Some (takeWhile (\<lambda>c. c \<noteq> d) (buf st))))"

definition get_char :: "istringstream \<Rightarrow> istringstream" where
  \<comment> \<open>\<open>stream.get()\<close>, its result dropped\<close>
  "get_char st =
     (if failbit st then st
      else if buf st = [] then failed []
      else good (tl (buf st)))"

subsection \<open>The object and its exceptions\<close>

type_synonym Path = "uint list"

type_synonym LayerNodeToStateId = "uint \<rightharpoonup> (uint \<rightharpoonup> uint)"

record ClusterMap =
  m_clusterIds :: "uint \<rightharpoonup> uint"
  m_flowData :: "uint \<rightharpoonup> rat"
  m_nodePaths :: "(uint \<times> Path) list"
  m_extension :: string
  m_isHigherOrder :: bool

definition ClusterMap_new :: ClusterMap where
  \<comment> \<open>Modelled from the spec: the class declaration (\<open>ClusterMap.h\<close>) is not among
      the sources. A new object has empty collections, and higher-order mode is off
      until a record sets it (spec, section 3).\<close>
  "ClusterMap_new =
     \<lparr>m_clusterIds = Map.empty, m_flowData = Map.empty, m_nodePaths = [],
      m_extension = [], m_isHigherOrder = False\<rparr>"

datatype message =
    UnknownExtension string string
      \<comment> \<open>Input cluster data from file .. is of unknown extension ..\<close>
  | CouldntParseTreePath string
  | CouldntParseNodeFlow string
  | CantParseNodeName uint string
  | CouldntParseNodeId string
  | MissingStateId string
      \<comment> \<open>Missing state id for node on line ..\<close>
  | CouldntParseLayerId string
  | ZeroInTreePath
      \<comment> \<open>There is a '0' in the tree path, lowest allowed integer is 1.\<close>
  | CouldntParseNodeKeyAndClusterId string
  | CouldntParseNodeKey string

datatype error =
    ImplementationError message
  | FileFormatError message
  | BadConversionError message

datatype step =
    Next ClusterMap
      \<comment> \<open>the loop body has ended or has reached \<open>continue\<close>\<close>
  | Break ClusterMap
  | Throw error ClusterMap

definition lookupState :: "LayerNodeToStateId \<Rightarrow> uint \<Rightarrow> uint \<Rightarrow> uint option" where
  \<comment> \<open>the two nested \<open>find\<close> calls, the same in both readers\<close>
  "lookupState index layerId nodeId =
     (case index layerId of
        None \<Rightarrow> None
      | Some nodeIdToStateId \<Rightarrow> nodeIdToStateId nodeId)"

subsection \<open>\<open>ClusterMap::readTree\<close>\<close>

function readPath :: "istringstream \<Rightarrow> Path \<Rightarrow> error + Path" where
  \<comment> \<open>the loop \<open>while (pathStream >> childNumber)\<close>\<close>
  "readPath pathStream path =
     (case extract_uint pathStream of
        (ps, None) \<Rightarrow> Inr path
      | (ps, Some childNumber) \<Rightarrow>
          (let ps' = get_char ps
           in if childNumber = 0 then Inl (FileFormatError ZeroInTreePath)
              else readPath ps' (path @ [childNumber])))"
  by pat_completeness auto
termination
proof -
  have shorter: "length (buf (get_char ps)) < length (buf pathStream)"
    if e: "(ps, Some childNumber) = extract_uint pathStream"
    for pathStream ps and childNumber :: uint
  proof -
    obtain neg body where ts: "take_sign (dropWhile isspace (buf pathStream)) = (neg, body)"
      by (cases "take_sign (dropWhile isspace (buf pathStream))")
    from e [symmetric] ts
    have ps: "buf ps = dropWhile isdigit body" and ne: "takeWhile isdigit body \<noteq> []"
      by (auto simp: extract_uint_def Let_def good_def failed_def split: if_splits)
    from ne have "length (dropWhile isdigit body) < length body"
      by (cases body) (auto simp: le_imp_less_Suc length_dropWhile_le split: if_splits)
    moreover have "length (snd (take_sign cs)) \<le> length cs" for cs
      by (cases cs) simp_all
    from this [of "dropWhile isspace (buf pathStream)"] ts
    have "length body \<le> length (dropWhile isspace (buf pathStream))"
      by simp
    moreover have "length (dropWhile isspace (buf pathStream)) \<le> length (buf pathStream)"
      by (rule length_dropWhile_le)
    moreover have "length (buf (get_char ps)) \<le> length (buf ps)"
      by (simp add: get_char_def failed_def good_def)
    ultimately show ?thesis
      using ps by simp
  qed
  show ?thesis
    by (relation "measure (\<lambda>(ps, path). length (buf ps))") (simp_all add: shorter)
qed

declare readPath.simps [simp del]

record tree_fields =
  pathString :: string
  flow :: rat
  name :: string
  stateId :: uint
  lineStream :: istringstream

definition readTree_fields :: "uint \<Rightarrow> string \<Rightarrow> error + tree_fields" where
  \<comment> \<open>the reads of the path, the flow, the quoted name and the state id, each with
      its \<open>throw\<close>. The name is the result of the second \<open>getline\<close>, which
      overwrites that of the first.\<close>
  "readTree_fields lineNr line =
     (case extract_string (str line) of
        (s1, None) \<Rightarrow> Inl (FileFormatError (CouldntParseTreePath line))
      | (s1, Some p) \<Rightarrow>
     (case extract_double s1 of
        (s2, None) \<Rightarrow> Inl (FileFormatError (CouldntParseNodeFlow line))
      | (s2, Some fl) \<Rightarrow>
     (case getline_delim s2 (CHR 0x22) of
        (s3, None) \<Rightarrow> Inl (BadConversionError (CantParseNodeName lineNr line))
      | (s3, Some skipped) \<Rightarrow>
     (case getline_delim s3 (CHR 0x22) of
        (s4, None) \<Rightarrow> Inl (BadConversionError (CantParseNodeName lineNr line))
      | (s4, Some nm) \<Rightarrow>
     (case extract_uint s4 of
        (s5, None) \<Rightarrow> Inl (FileFormatError (CouldntParseNodeId line))
      | (s5, Some sid) \<Rightarrow>
          Inr \<lparr>pathString = p, flow = fl, name = nm, stateId = sid, lineStream = s5\<rparr>)))))"

definition readTree_emit :: "bool \<Rightarrow> string \<Rightarrow> rat \<Rightarrow> uint \<Rightarrow> ClusterMap \<Rightarrow> step" where
  \<comment> \<open>the end of the loop body: the path is decoded, then the node path is appended
      and the flow stored\<close>
  "readTree_emit includeFlow p fl sid cm =
     (case readPath (str p) [] of
        Inl e \<Rightarrow> Throw e cm
      | Inr path \<Rightarrow>
          (let cm' = cm\<lparr>m_nodePaths := m_nodePaths cm @ [(sid, path)]\<rparr>
           in if includeFlow then Next (cm'\<lparr>m_flowData := (m_flowData cm')(sid \<mapsto> fl)\<rparr>)
              else Next cm'))"

datatype parsed =
    Skipped ClusterMap
      \<comment> \<open>\<open>continue\<close>: the layer and node are not in the index\<close>
  | Failed error ClusterMap
  | Parsed string rat uint ClusterMap
      \<comment> \<open>the path token, the flow and the state id to store\<close>

definition readTree_record ::
  "LayerNodeToStateId option \<Rightarrow> uint \<Rightarrow> string \<Rightarrow> ClusterMap \<Rightarrow> parsed" where
  \<comment> \<open>the loop body from \<open>lineStream.str(line)\<close> to the \<open>continue\<close> of a record
      that is not in the index. Where the index is consulted \<open>nodeId\<close> has a value: a
      failed read of it leaves \<open>failbit\<close> set, so the read of \<open>layerId\<close> fails and
      throws.\<close>
  "readTree_record layerNodeToStateId lineNr line cm =
     (case readTree_fields lineNr line of
        Inl e \<Rightarrow> Failed e cm
      | Inr f \<Rightarrow>
          (case extract_uint (lineStream f) of
             (s6, nodeId) \<Rightarrow>
               (if nodeId = None \<and> m_isHigherOrder cm
                then Failed (FileFormatError (MissingStateId line)) cm
                else
                  (let cm1 = (if nodeId = None then cm else cm\<lparr>m_isHigherOrder := True\<rparr>)
                   in case layerNodeToStateId of
                        None \<Rightarrow> Parsed (pathString f) (flow f) (stateId f) cm1
                      | Some index \<Rightarrow>
                          (case extract_uint s6 of
                             (s7, None) \<Rightarrow> Failed (FileFormatError (CouldntParseLayerId line)) cm1
                           | (s7, Some layerId) \<Rightarrow>
                               (case Option.bind nodeId (lookupState index layerId) of
                                  None \<Rightarrow> Skipped cm1
                                | Some sid \<Rightarrow> Parsed (pathString f) (flow f) sid cm1))))))"

definition readTree_line ::
  "bool \<Rightarrow> LayerNodeToStateId option \<Rightarrow> uint \<Rightarrow> string \<Rightarrow> ClusterMap \<Rightarrow> step" where
  \<comment> \<open>the body of the \<open>while\<close> loop, \<open>lineNr\<close> already incremented. The locals
      \<open>header\<close> and \<open>section\<close> are written and never read, and are left out.\<close>
  "readTree_line includeFlow layerNodeToStateId lineNr line cm =
     (if line = [] then Next cm
      else if hd line = CHR ''#'' then Next cm
      else if hd line = CHR ''*'' then Break cm
      else
        (case readTree_record layerNodeToStateId lineNr line cm of
           Skipped cm1 \<Rightarrow> Next cm1
         | Failed e cm1 \<Rightarrow> Throw e cm1
         | Parsed p fl sid cm1 \<Rightarrow> readTree_emit includeFlow p fl sid cm1))"

fun readTree_loop ::
  "bool \<Rightarrow> LayerNodeToStateId option \<Rightarrow> uint \<Rightarrow> string list \<Rightarrow> ClusterMap \<Rightarrow> step" where
  \<comment> \<open>\<open>while (!std::getline(input, line).fail())\<close>; \<open>Next\<close> is the end of the file\<close>
  "readTree_loop includeFlow index lineNr [] cm = Next cm"
| "readTree_loop includeFlow index lineNr (line # rest) cm =
     (case readTree_line includeFlow index (lineNr + 1) line cm of
        Next cm' \<Rightarrow> readTree_loop includeFlow index (lineNr + 1) rest cm'
      | Break cm' \<Rightarrow> Break cm'
      | Throw e cm' \<Rightarrow> Throw e cm')"

definition finish :: "step \<Rightarrow> error \<times> ClusterMap + ClusterMap" where
  \<comment> \<open>a member function returns after its loop, or has thrown\<close>
  "finish r = (case r of Next cm \<Rightarrow> Inr cm | Break cm \<Rightarrow> Inr cm | Throw e cm \<Rightarrow> Inl (e, cm))"

definition readTree ::
  "string list \<Rightarrow> bool \<Rightarrow> LayerNodeToStateId option \<Rightarrow> ClusterMap \<Rightarrow> error \<times> ClusterMap + ClusterMap" where
  "readTree input includeFlow layerNodeToStateId cm =
     finish (readTree_loop includeFlow layerNodeToStateId 0 input (cm\<lparr>m_nodePaths := []\<rparr>))"

subsection \<open>\<open>ClusterMap::readClu\<close>\<close>

definition readClu_line ::
  "bool \<Rightarrow> LayerNodeToStateId option \<Rightarrow> string \<Rightarrow> ClusterMap \<Rightarrow> step" where
  \<comment> \<open>the body of the \<open>while\<close> loop. In \<open>stream >> stateId >> moduleId\<close> the second
      read follows the first whether or not it has failed.\<close>
  "readClu_line includeFlow layerNodeToStateId line cm =
     (if line = [] then Next cm
      else if hd line = CHR ''#'' then Next cm
      else if hd line = CHR ''*'' then Next cm
      else
        (case extract_uint (str line) of
           (s1, stateId0) \<Rightarrow>
        (case extract_uint s1 of
           (s2, None) \<Rightarrow> Throw (FileFormatError (CouldntParseNodeKeyAndClusterId line)) cm
         | (s2, Some moduleId) \<Rightarrow>
        (case stateId0 of
           None \<Rightarrow> Throw (FileFormatError (CouldntParseNodeKeyAndClusterId line)) cm
         | Some sid0 \<Rightarrow>
        (case extract_double s2 of
           (s3, fl) \<Rightarrow>
             (let cm1 = (case fl of
                           None \<Rightarrow> cm
                         | Some v \<Rightarrow>
                             if includeFlow then cm\<lparr>m_flowData := (m_flowData cm)(sid0 \<mapsto> v)\<rparr>
                             else cm)
              in case layerNodeToStateId of
                   None \<Rightarrow> Next (cm1\<lparr>m_clusterIds := (m_clusterIds cm1)(sid0 \<mapsto> moduleId)\<rparr>)
                 | Some index \<Rightarrow>
                     (case extract_uint s3 of
                        (s4, None) \<Rightarrow> Throw (FileFormatError (CouldntParseNodeKey line)) cm1
                      | (s4, Some nodeId) \<Rightarrow>
                     (case extract_uint s4 of
                        (s5, None) \<Rightarrow> Throw (FileFormatError (CouldntParseLayerId line)) cm1
                      | (s5, Some layerId) \<Rightarrow>
                     (case lookupState index layerId nodeId of
                        None \<Rightarrow> Next cm1
                      | Some sid \<Rightarrow>
                          Next (cm1\<lparr>m_clusterIds := (m_clusterIds cm1)(sid \<mapsto> moduleId)\<rparr>))))))))))"

fun readClu_loop ::
  "bool \<Rightarrow> LayerNodeToStateId option \<Rightarrow> string list \<Rightarrow> ClusterMap \<Rightarrow> step" where
  "readClu_loop includeFlow index [] cm = Next cm"
| "readClu_loop includeFlow index (line # rest) cm =
     (case readClu_line includeFlow index line cm of
        Next cm' \<Rightarrow> readClu_loop includeFlow index rest cm'
      | Break cm' \<Rightarrow> Break cm'
      | Throw e cm' \<Rightarrow> Throw e cm')"

definition readClu ::
  "string list \<Rightarrow> bool \<Rightarrow> LayerNodeToStateId option \<Rightarrow> ClusterMap \<Rightarrow> error \<times> ClusterMap + ClusterMap" where
  \<comment> \<open>the local map \<open>clusterData\<close> is never used and is left out\<close>
  "readClu input includeFlow layerNodeToStateId cm =
     finish (readClu_loop includeFlow layerNodeToStateId input cm)"

subsection \<open>\<open>ClusterMap::readClusterData\<close>\<close>

definition getExtension :: "string \<Rightarrow> string" where
  \<comment> \<open>Modelled from the spec: \<open>FileURI::getExtension\<close>, whose source
      (\<open>utils/FileURI.h\<close>) is not among the sources. The spec derives the extension
      "case-sensitively from the path's suffix after the last \<open>.\<close>"; a path without
      \<open>.\<close> has no such suffix and gets the empty extension.\<close>
  "getExtension filename =
     (if CHR ''.'' \<in> set filename
      then rev (takeWhile (\<lambda>c. c \<noteq> CHR ''.'') (rev filename))
      else [])"

definition readClusterData ::
  "string \<Rightarrow> string list \<Rightarrow> bool \<Rightarrow> LayerNodeToStateId option \<Rightarrow> ClusterMap
     \<Rightarrow> error \<times> ClusterMap + ClusterMap" where
  \<comment> \<open>\<open>input\<close> is the lines of the file named \<open>filename\<close>\<close>
  "readClusterData filename input includeFlow layerNodeToStateId cm =
     (let cm' = cm\<lparr>m_extension := getExtension filename\<rparr>
      in if m_extension cm' = ''tree'' \<or> m_extension cm' = ''ftree''
         then readTree input includeFlow layerNodeToStateId cm'
         else if m_extension cm' = ''clu''
         then readClu input includeFlow layerNodeToStateId cm'
         else Inl (ImplementationError (UnknownExtension filename (m_extension cm')), cm'))"

subsection \<open>Data for the scenarios\<close>

definition index_2_10_42 :: LayerNodeToStateId where
  \<comment> \<open>the index with the single entry layer 2, node 10, state id 42\<close>
  "index_2_10_42 = [2 \<mapsto> [10 \<mapsto> 42]]"

subsection \<open>What a call keeps\<close>

definition object_after :: "error \<times> ClusterMap + ClusterMap \<Rightarrow> ClusterMap" where
  \<comment> \<open>the object after a call, whether it has returned or thrown\<close>
  "object_after r = (case r of Inl (e, cm) \<Rightarrow> cm | Inr cm \<Rightarrow> cm)"

definition step_object :: "step \<Rightarrow> ClusterMap" where
  "step_object r = (case r of Next cm \<Rightarrow> cm | Break cm \<Rightarrow> cm | Throw e cm \<Rightarrow> cm)"

definition keeps :: "ClusterMap \<Rightarrow> ClusterMap \<Rightarrow> bool" where
  \<comment> \<open>what the first object holds, the second still holds: the keys of the cluster ids
      and of the flow data, and higher-order mode\<close>
  "keeps cm cm' =
     (dom (m_clusterIds cm) \<subseteq> dom (m_clusterIds cm')
      \<and> dom (m_flowData cm) \<subseteq> dom (m_flowData cm')
      \<and> (m_isHigherOrder cm \<longrightarrow> m_isHigherOrder cm'))"

subsection \<open>Path tokens and tree records\<close>

definition signOK :: "string \<Rightarrow> bool" where
  \<comment> \<open>the optional sign of an integer\<close>
  "signOK sg = (sg = [] \<or> sg = ''+'' \<or> sg = ''-'')"

definition elementOK :: "string \<times> string \<times> char \<Rightarrow> bool" where
  \<comment> \<open>a path integer (its sign, its digits) that is not 0 and at most \<open>UINT_MAX\<close>,
      and the one character after it, which is not a digit\<close>
  "elementOK seg =
     (case seg of
        (sg, d, c) \<Rightarrow>
          (if d = [] then False
           else if isdigit c then False
           else signOK sg \<and> list_all isdigit d \<and> 0 < digits_val 0 d
                \<and> digits_val 0 d \<le> 4294967295))"

definition elementText :: "string \<times> string \<times> char \<Rightarrow> string" where
  "elementText seg = (case seg of (sg, d, c) \<Rightarrow> sg @ d @ [c])"

definition elementValue :: "string \<times> string \<times> char \<Rightarrow> uint" where
  \<comment> \<open>the value that the read of an \<open>unsigned int\<close> gives for the integer\<close>
  "elementValue seg =
     (case seg of
        (sg, d, c) \<Rightarrow> (if sg = ''-'' then - of_nat (digits_val 0 d) else of_nat (digits_val 0 d)))"

definition zeroElement :: "string \<Rightarrow> bool" where
  \<comment> \<open>the digits of the integer 0: one or more \<open>0\<close>\<close>
  "zeroElement z = (if z = [] then False else list_all (\<lambda>c. c = CHR ''0'') z)"

definition endsInteger :: "string \<Rightarrow> bool" where
  \<comment> \<open>the text after an integer: the end, or a character that is not a digit\<close>
  "endsInteger tail = (case tail of [] \<Rightarrow> True | c # cs \<Rightarrow> (if isdigit c then False else True))"

definition noInteger :: "string \<Rightarrow> bool" where
  \<comment> \<open>text at which no integer can be read: after white space and an optional sign
      there is no digit, or the digits are a value above \<open>UINT_MAX\<close>\<close>
  "noInteger r =
     (case take_sign (dropWhile isspace r) of
        (neg, body) \<Rightarrow>
          (if takeWhile isdigit body = [] then True
           else 4294967295 < digits_val 0 (takeWhile isdigit body)))"

definition startsNoInteger :: "char \<Rightarrow> bool" where
  \<comment> \<open>a character that is no digit, no sign and no white space\<close>
  "startsNoInteger c =
     (if isdigit c then False else if isspace c then False
      else if c = CHR ''+'' then False else if c = CHR ''-'' then False else True)"

definition recordLine :: "string \<Rightarrow> bool" where
  \<comment> \<open>a line that \<open>readTree\<close> reads as a record: not empty, no \<open>#\<close> or \<open>*\<close> first\<close>
  "recordLine line =
     (if line = [] then False
      else if hd line = CHR ''#'' then False
      else if hd line = CHR ''*'' then False
      else True)"

definition suppliesNodeId :: "string \<Rightarrow> bool" where
  \<comment> \<open>a record whose fields up to the state id are read and whose read of
      \<open>nodeId\<close> succeeds\<close>
  "suppliesNodeId line =
     (if recordLine line
      then (case readTree_fields 0 line of
              Inl e \<Rightarrow> False
            | Inr f \<Rightarrow> (case snd (extract_uint (lineStream f)) of None \<Rightarrow> False | Some n \<Rightarrow> True))
      else False)"

definition omitsNodeId :: "string \<Rightarrow> bool" where
  \<comment> \<open>a record whose fields up to the state id are read and whose read of
      \<open>nodeId\<close> fails\<close>
  "omitsNodeId line =
     (if recordLine line
      then (case readTree_fields 0 line of
              Inl e \<Rightarrow> False
            | Inr f \<Rightarrow> (case snd (extract_uint (lineStream f)) of None \<Rightarrow> True | Some n \<Rightarrow> False))
      else False)"

section \<open>Properties\<close>

subsection \<open>Evaluation and the loops\<close>

lemma readPath_stop: "extract_uint ps = (ps', None) \<Longrightarrow> readPath ps path = Inr path"
  by (subst readPath.simps) simp

lemma readPath_step:
  "extract_uint ps = (ps', Some c) \<Longrightarrow>
   readPath ps path =
     (if c = 0 then Inl (FileFormatError ZeroInTreePath) else readPath (get_char ps') (path @ [c]))"
  by (subst readPath.simps) simp

lemmas stream_defs =
  str_def extract_uint_def extract_string_def extract_double_def getline_delim_def
  isspace_def notspace_def isdigit_def good_def failed_def get_char_def take_point_def
  finish_double_def DBL_OVERFLOW_def scale10_def

lemmas reader_defs =
  readTree_def readTree_line_def readTree_record_def readTree_emit_def readTree_fields_def
  readClu_def readClu_line_def finish_def lookupState_def

lemma readTree_loop_append:
  "readTree_loop inc idx n (xs @ ys) cm =
     (case readTree_loop inc idx n xs cm of
        Next cm' \<Rightarrow> readTree_loop inc idx (n + of_nat (length xs)) ys cm'
      | Break cm' \<Rightarrow> Break cm'
      | Throw e cm' \<Rightarrow> Throw e cm')"
  by (induction xs arbitrary: n cm) (auto split: step.splits simp: add.assoc add.commute)

lemma readClu_loop_append:
  "readClu_loop inc idx (xs @ ys) cm =
     (case readClu_loop inc idx xs cm of
        Next cm' \<Rightarrow> readClu_loop inc idx ys cm'
      | Break cm' \<Rightarrow> Break cm'
      | Throw e cm' \<Rightarrow> Throw e cm')"
  by (induction xs arbitrary: cm) (auto split: step.splits)

lemma star_tree: "l \<noteq> [] \<Longrightarrow> hd l = CHR ''*'' \<Longrightarrow> readTree_line inc idx n l cm = Break cm"
  by (simp add: readTree_line_def)

lemma star_clu: "l \<noteq> [] \<Longrightarrow> hd l = CHR ''*'' \<Longrightarrow> readClu_line inc idx l cm = Next cm"
  by (simp add: readClu_line_def)

subsection \<open>Lines that begin with \<open>*\<close>\<close>

text \<open>
  C9. A line that begins with \<open>*\<close> ends the reading of a tree file: the result is that of
  the lines before it, and whatever follows is neither read nor able to fail. In a clu
  file such a line is skipped: the result is that of the file without it.
\<close>

theorem C9_star_lines:
  assumes "l \<noteq> []" and "hd l = CHR ''*''"
  shows "readTree (pre @ l # rest) inc idx cm = readTree pre inc idx cm
       \<and> readClu (pre @ l # rest) inc idx cm = readClu (pre @ rest) inc idx cm"
proof
  show "readTree (pre @ l # rest) inc idx cm = readTree pre inc idx cm"
    using assms
    by (simp add: readTree_def readTree_loop_append star_tree finish_def split: step.splits)
  show "readClu (pre @ l # rest) inc idx cm = readClu (pre @ rest) inc idx cm"
    using assms
    by (simp add: readClu_def readClu_loop_append star_clu split: step.splits)
qed

theorem C9_star_lines_witness:
  \<open>''*Links'' \<noteq> [] \<and> hd ''*Links'' = CHR ''*''
   \<and> readTree ([''1:1 0.5 "a" 1''] @ ''*Links'' # [''1 2 0.5'']) True None ClusterMap_new
       = Inr (ClusterMap_new\<lparr>m_nodePaths := [(1, [1, 1])], m_flowData := [1 \<mapsto> 1 / 2]\<rparr>)
   \<and> readClu ([''1 1''] @ ''*Links'' # [''2 1'']) True None ClusterMap_new
       = Inr (ClusterMap_new\<lparr>m_clusterIds := [1 \<mapsto> 1, 2 \<mapsto> 1]\<rparr>)\<close>
  using C9_star_lines [of "''*Links''" \<open>[''1:1 0.5 "a" 1'']\<close> "[''1 2 0.5'']" True None ClusterMap_new]
    C9_star_lines [of "''*Links''" "[''1 1'']" "[''2 1'']" True None ClusterMap_new]
  by (simp add: reader_defs readPath_stop readPath_step stream_defs ClusterMap_new_def)

subsection \<open>The scenarios of the two readers\<close>

text \<open>
  C1. The clu reader stores the flow as soon as it is read, under the state id of the
  line, and resolves the state id afterwards: for the line \<open>5 3 0.1 10 2\<close> and the index
  that maps layer 2, node 10 to 42 the module is stored under 42 and the flow under 5.
\<close>

theorem C1_readClu_flow_under_raw_state_id:
  "readClu [''5 3 0.1 10 2''] True (Some index_2_10_42) ClusterMap_new
     = Inr (ClusterMap_new\<lparr>m_clusterIds := [42 \<mapsto> 3], m_flowData := [5 \<mapsto> 1 / 10]\<rparr>)"
  by (simp add: reader_defs stream_defs index_2_10_42_def ClusterMap_new_def)

text \<open>
  C2. A clu record whose layer and node are not in the index adds no cluster id, but its
  flow has been stored before the lookup: with the empty index the line \<open>5 3 0.1 10 2\<close>
  leaves the flow 0.1 under 5.
\<close>

theorem C2_readClu_skipped_record_stores_flow:
  "readClu [''5 3 0.1 10 2''] True (Some Map.empty) ClusterMap_new
     = Inr (ClusterMap_new\<lparr>m_flowData := [5 \<mapsto> 1 / 10]\<rparr>)"
  by (simp add: reader_defs stream_defs ClusterMap_new_def)

text \<open>
  C7. On an object that is not in higher-order mode, the tree line
  \<open>1:1:2 0.025641 "2" 2\<close> read with flow and without an index gives the node paths
  \<open>[(2, [1, 1, 2])]\<close> and stores the flow 0.025641 under 2.
\<close>

theorem C7_tree_line:
  assumes "\<not> m_isHigherOrder cm"
  shows \<open>readTree [''1:1:2 0.025641 "2" 2''] True None cm
     = Inr (cm\<lparr>m_nodePaths := [(2, [1, 1, 2])], m_flowData := (m_flowData cm)(2 \<mapsto> 0.025641)\<rparr>)\<close>
  using assms by (simp add: reader_defs readPath_stop readPath_step stream_defs)

theorem C7_tree_line_witness:
  \<open>\<not> m_isHigherOrder ClusterMap_new \<and>
   readTree [''1:1:2 0.025641 "2" 2''] True None ClusterMap_new
     = Inr (ClusterMap_new\<lparr>m_nodePaths := [(2, [1, 1, 2])], m_flowData := [2 \<mapsto> 0.025641]\<rparr>)\<close>
  using C7_tree_line [of ClusterMap_new] by (simp add: ClusterMap_new_def)

text \<open>
  C8. A tree line with an opening quote and no closing quote: the second \<open>getline\<close>
  reads up to the end of the line and succeeds, and the read of the state id that follows
  fails. The exception is the \<open>FileFormatError\<close> of the state id, not the
  \<open>BadConversionError\<close> of the name.
\<close>

theorem C8_missing_closing_quote:
  \<open>readTree [''1:1:2 0.5 "abc 2''] True None ClusterMap_new
     = Inl (FileFormatError (CouldntParseNodeId ''1:1:2 0.5 "abc 2''), ClusterMap_new)\<close>
  by (simp add: reader_defs stream_defs ClusterMap_new_def)

subsection \<open>The dispatch on the extension\<close>

lemma getExtension_suffix:
  assumes "CHR ''.'' \<notin> set ext"
  shows "getExtension (base @ CHR ''.'' # ext) = ext"
proof -
  from assms have "takeWhile (\<lambda>c. c \<noteq> CHR ''.'') (rev ext) = rev ext"
    by (auto simp: takeWhile_eq_all_conv)
  then have "takeWhile (\<lambda>c. c \<noteq> CHR ''.'') (rev ext @ CHR ''.'' # rev base) = rev ext"
    by (simp add: takeWhile_tail)
  then show ?thesis
    by (simp add: getExtension_def)
qed

lemma getExtension_no_dot: "CHR ''.'' \<notin> set filename \<Longrightarrow> getExtension filename = []"
  by (simp add: getExtension_def)

text \<open>
  C4. For every path, the extension of the path is stored in the object; \<open>tree\<close> and
  \<open>ftree\<close> go to \<open>readTree\<close>, \<open>clu\<close> goes to \<open>readClu\<close>, and every other
  extension throws an \<open>ImplementationError\<close> that names the file and the extension,
  whatever the lines of the file are. The extension is the text after the last \<open>.\<close> of
  the path, and is empty for a path without \<open>.\<close>, which therefore throws.
\<close>

theorem C4_dispatch:
  "readClusterData filename input inc idx cm =
     (if getExtension filename = ''tree'' \<or> getExtension filename = ''ftree''
      then readTree input inc idx (cm\<lparr>m_extension := getExtension filename\<rparr>)
      else if getExtension filename = ''clu''
      then readClu input inc idx (cm\<lparr>m_extension := getExtension filename\<rparr>)
      else Inl (ImplementationError (UnknownExtension filename (getExtension filename)),
                cm\<lparr>m_extension := getExtension filename\<rparr>))
   \<and> (CHR ''.'' \<notin> set ext \<longrightarrow> getExtension (base @ CHR ''.'' # ext) = ext)
   \<and> (CHR ''.'' \<notin> set filename \<longrightarrow> getExtension filename = [])"
  by (simp add: readClusterData_def Let_def getExtension_suffix getExtension_no_dot)

theorem C4_dispatch_witness:
  "CHR ''.'' \<notin> set ''csv''
   \<and> readClusterData ''out/part.v2.csv'' [''5 3 0.1'', ''not a record''] True None ClusterMap_new
       = Inl (ImplementationError (UnknownExtension ''out/part.v2.csv'' ''csv''),
              ClusterMap_new\<lparr>m_extension := ''csv''\<rparr>)
   \<and> CHR ''.'' \<notin> set ''part''
   \<and> readClusterData ''part'' [''5 3 0.1'', ''not a record''] True None ClusterMap_new
       = Inl (ImplementationError (UnknownExtension ''part'' []),
              ClusterMap_new\<lparr>m_extension := []\<rparr>)"
  using
    C4_dispatch [where filename = "''out/part.v2.csv''" and ext = "''csv''" and base = "''out/part.v2''"
      and input = "[''5 3 0.1'', ''not a record'']" and inc = True and idx = None
      and cm = ClusterMap_new]
    C4_dispatch [where filename = "''part''" and ext = "''csv''" and base = "''out/part.v2''"
      and input = "[''5 3 0.1'', ''not a record'']" and inc = True and idx = None
      and cm = ClusterMap_new]
  by simp

subsection \<open>What a call resets\<close>

lemma keeps_refl: "keeps cm cm"
  by (simp add: keeps_def)

lemma keeps_trans: "keeps a b \<Longrightarrow> keeps b c \<Longrightarrow> keeps a c"
  unfolding keeps_def by blast

lemma readTree_emit_keeps: "keeps cm (step_object (readTree_emit inc p fl sid cm))"
  by (auto simp: readTree_emit_def keeps_def step_object_def Let_def split: sum.splits)

lemma readTree_record_keeps:
  "readTree_record idx n l cm = Skipped cm' \<or> readTree_record idx n l cm = Failed e cm'
     \<or> readTree_record idx n l cm = Parsed p fl sid cm' \<Longrightarrow> keeps cm cm'"
  by (auto simp: readTree_record_def keeps_def Let_def
      split: sum.splits prod.splits option.splits if_splits)

lemma readTree_line_keeps: "keeps cm (step_object (readTree_line inc idx n l cm))"
proof (cases "readTree_record idx n l cm")
  case (Skipped cm')
  then show ?thesis
    using readTree_record_keeps [of idx n l cm cm']
    by (simp add: readTree_line_def step_object_def keeps_refl)
next
  case (Failed e cm')
  then show ?thesis
    using readTree_record_keeps [of idx n l cm cm' e]
    by (simp add: readTree_line_def step_object_def keeps_refl)
next
  case (Parsed p fl sid cm')
  then have "keeps cm cm'"
    using readTree_record_keeps [of idx n l cm cm' _ p fl sid] by simp
  with Parsed show ?thesis
    using readTree_emit_keeps [of cm' inc p fl sid]
    by (auto simp: readTree_line_def step_object_def keeps_refl intro: keeps_trans)
qed

lemma readTree_loop_keeps: "keeps cm (step_object (readTree_loop inc idx n ls cm))"
proof (induction ls arbitrary: n cm)
  case Nil
  show ?case by (simp add: step_object_def keeps_refl)
next
  case (Cons l ls)
  show ?case
  proof (cases "readTree_line inc idx (n + 1) l cm")
    case (Next cm')
    with readTree_line_keeps [of cm inc idx "n + 1" l] have "keeps cm cm'"
      by (simp add: step_object_def)
    with Next Cons.IH [of cm' "n + 1"] show ?thesis
      by (auto intro: keeps_trans)
  next
    case (Break cm')
    with readTree_line_keeps [of cm inc idx "n + 1" l] show ?thesis
      by (simp add: step_object_def)
  next
    case (Throw e cm')
    with readTree_line_keeps [of cm inc idx "n + 1" l] show ?thesis
      by (simp add: step_object_def)
  qed
qed

lemma readClu_line_keeps:
  "keeps cm (step_object (readClu_line inc idx l cm))
   \<and> m_nodePaths (step_object (readClu_line inc idx l cm)) = m_nodePaths cm"
  by (auto simp: readClu_line_def keeps_def step_object_def Let_def
      split: prod.splits option.splits)

lemma readClu_loop_keeps:
  "keeps cm (step_object (readClu_loop inc idx ls cm))
   \<and> m_nodePaths (step_object (readClu_loop inc idx ls cm)) = m_nodePaths cm"
proof (induction ls arbitrary: cm)
  case Nil
  show ?case by (simp add: step_object_def keeps_refl)
next
  case (Cons l ls)
  show ?case
  proof (cases "readClu_line inc idx l cm")
    case (Next cm')
    with readClu_line_keeps [of cm inc idx l]
    have "keeps cm cm'" and "m_nodePaths cm' = m_nodePaths cm"
      by (simp_all add: step_object_def)
    with Next Cons.IH [of cm'] show ?thesis
      by (auto intro: keeps_trans)
  next
    case (Break cm')
    with readClu_line_keeps [of cm inc idx l] show ?thesis
      by (simp add: step_object_def)
  next
    case (Throw e cm')
    with readClu_line_keeps [of cm inc idx l] show ?thesis
      by (simp add: step_object_def)
  qed
qed

lemma object_after_finish: "object_after (finish r) = step_object r"
  by (simp add: object_after_def finish_def step_object_def split: step.splits)

lemma keeps_update:
  "keeps (cm\<lparr>m_nodePaths := np\<rparr>) cm' = keeps cm cm'"
  "keeps (cm\<lparr>m_extension := ex\<rparr>) cm' = keeps cm cm'"
  by (simp_all add: keeps_def)

text \<open>
  What a call leaves in the object: after a call of \<open>readClusterData\<close>, returned or
  thrown, every key of the cluster ids and of the flow data that the object held is still
  there and higher-order mode is still on if it was; \<open>readTree\<close> does not depend on the
  node paths it finds; \<open>readClu\<close> leaves the node paths as they are.
\<close>

lemma readClusterData_keeps:
  "keeps cm (object_after (readClusterData filename input inc idx cm))
   \<and> readTree input inc idx (cm\<lparr>m_nodePaths := np\<rparr>) = readTree input inc idx cm
   \<and> m_nodePaths (object_after (readClu input inc idx cm)) = m_nodePaths cm"
proof (intro conjI)
  have t: "keeps cm (object_after (readTree input inc idx (cm\<lparr>m_extension := ex\<rparr>)))" for ex
    using readTree_loop_keeps [of "cm\<lparr>m_extension := ex, m_nodePaths := []\<rparr>" inc idx 0 input]
    by (simp add: readTree_def object_after_finish keeps_update)
  have c: "keeps cm (object_after (readClu input inc idx (cm\<lparr>m_extension := ex\<rparr>)))" for ex
    using readClu_loop_keeps [of "cm\<lparr>m_extension := ex\<rparr>" inc idx input]
    by (simp add: readClu_def object_after_finish keeps_update)
  show "keeps cm (object_after (readClusterData filename input inc idx cm))"
    using t c
    by (simp add: readClusterData_def Let_def object_after_def keeps_def)
  show "readTree input inc idx (cm\<lparr>m_nodePaths := np\<rparr>) = readTree input inc idx cm"
    by (simp add: readTree_def)
  show "m_nodePaths (object_after (readClu input inc idx cm)) = m_nodePaths cm"
    using readClu_loop_keeps [of cm inc idx input]
    by (simp add: readClu_def object_after_finish)
qed

text \<open>
  C3. Of the three collections and higher-order mode, a call resets the node paths only,
  and only in \<open>readTree\<close>. On an object that has read a tree file with one higher-order
  record, a second call still finds higher-order mode on and the flow of the first call:
  a tree file with the plain record \<open>1:1:2 0.025641 "2" 2\<close> throws "Missing state id",
  and an empty clu file returns the flow, the node path and the mode of the first call.
\<close>

theorem C3_second_call_not_reset:
  \<open>readClusterData ''b.tree'' [''1:1:2 0.025641 "2" 2''] True None
     (object_after (readClusterData ''a.tree'' [''1:1 0.5 "a" 1 7''] True None ClusterMap_new))
   = Inl (FileFormatError (MissingStateId ''1:1:2 0.025641 "2" 2''),
          \<lparr>m_clusterIds = Map.empty, m_flowData = [1 \<mapsto> 1 / 2], m_nodePaths = [],
           m_extension = ''tree'', m_isHigherOrder = True\<rparr>)
   \<and> readClusterData ''b.clu'' [] True None
     (object_after (readClusterData ''a.tree'' [''1:1 0.5 "a" 1 7''] True None ClusterMap_new))
   = Inr \<lparr>m_clusterIds = Map.empty, m_flowData = [1 \<mapsto> 1 / 2], m_nodePaths = [(1, [1, 1])],
          m_extension = ''clu'', m_isHigherOrder = True\<rparr>\<close>
  by (simp add: readClusterData_def getExtension_def object_after_def reader_defs
      readPath_stop readPath_step stream_defs ClusterMap_new_def)

subsection \<open>Decoding a path\<close>

lemma digit_plain: "isdigit c \<Longrightarrow> \<not> isspace c \<and> c \<noteq> CHR ''-'' \<and> c \<noteq> CHR ''+''"
  by (auto simp: isdigit_def isspace_def)

lemma takeWhile_digits:
  assumes "list_all isdigit d" and "endsInteger tail"
  shows "takeWhile isdigit (d @ tail) = d" and "dropWhile isdigit (d @ tail) = tail"
proof -
  from assms(2) have t: "takeWhile isdigit tail = []" "dropWhile isdigit tail = tail"
    by (auto simp: endsInteger_def split: list.splits if_splits)
  from assms(1) have all: "\<And>x. x \<in> set d \<Longrightarrow> isdigit x"
    by (simp add: list_all_iff)
  from all t show "takeWhile isdigit (d @ tail) = d"
    by (simp add: takeWhile_append2)
  from all t show "dropWhile isdigit (d @ tail) = tail"
    by (simp add: dropWhile_append2)
qed

lemma extract_uint_digits:
  assumes "d \<noteq> []" and "list_all isdigit d" and "endsInteger tail"
    and "digits_val 0 d \<le> 4294967295"
  shows "extract_uint (str (d @ tail)) = (good tail, Some (of_nat (digits_val 0 d)))"
proof -
  from assms(1) obtain x xs where d: "d = x # xs"
    by (cases d) auto
  with assms(2) have x: "isdigit x"
    by simp
  note p = digit_plain [OF x]
  have ws: "dropWhile isspace (d @ tail) = d @ tail"
    using p by (simp add: d)
  have sg: "take_sign (d @ tail) = (False, d @ tail)"
    using p by (simp add: d)
  show ?thesis
    using assms(1,4) takeWhile_digits [OF assms(2,3)]
    by (simp add: extract_uint_def str_def ws sg Let_def)
qed

lemma endsInteger_Cons: "\<not> isdigit c \<Longrightarrow> endsInteger (c # rest)"
  by (simp add: endsInteger_def)

lemma str_good: "str s = good s"
  by (simp add: str_def good_def)

lemma get_char_good: "get_char (good (c # rest)) = good rest"
  by (simp add: get_char_def good_def)

lemma extract_uint_core:
  assumes "t \<noteq> []" and "dropWhile isspace t = t" and "take_sign t = (neg, d @ tail)"
    and "d \<noteq> []" and "list_all isdigit d" and "endsInteger tail"
    and "digits_val 0 d \<le> 4294967295"
  shows "extract_uint (str t)
     = (good tail, Some (if neg then - of_nat (digits_val 0 d) else of_nat (digits_val 0 d)))"
  using assms(1,2,3,4,7) takeWhile_digits [OF assms(5,6)]
  by (simp add: extract_uint_def str_def Let_def)

lemma extract_uint_signed:
  assumes "signOK sg" and "d \<noteq> []" and "list_all isdigit d" and "endsInteger tail"
    and "digits_val 0 d \<le> 4294967295"
  shows "extract_uint (str (sg @ d @ tail))
     = (good tail,
        Some (if sg = ''-'' then - of_nat (digits_val 0 d) else of_nat (digits_val 0 d)))"
proof -
  from assms(1) consider "sg = []" | "sg = ''+''" | "sg = ''-''"
    by (auto simp: signOK_def)
  then show ?thesis
  proof cases
    case 1
    with extract_uint_digits [OF assms(2,3,4,5)] show ?thesis
      by simp
  next
    case 2
    have "extract_uint (str (CHR ''+'' # d @ tail))
        = (good tail, Some (if False then - of_nat (digits_val 0 d) else of_nat (digits_val 0 d)))"
      by (rule extract_uint_core [OF _ _ _ assms(2,3,4,5)]) (simp_all add: isspace_def)
    with 2 show ?thesis
      by simp
  next
    case 3
    have "extract_uint (str (CHR ''-'' # d @ tail))
        = (good tail, Some (if True then - of_nat (digits_val 0 d) else of_nat (digits_val 0 d)))"
      by (rule extract_uint_core [OF _ _ _ assms(2,3,4,5)]) (simp_all add: isspace_def)
    with 3 show ?thesis
      by simp
  qed
qed

lemma elementValue_nonzero:
  assumes "elementOK seg"
  shows "elementValue seg \<noteq> 0"
proof -
  obtain sg d c where seg: "seg = (sg, d, c)"
    by (cases seg)
  from assms seg have "0 < digits_val 0 d" and "digits_val 0 d < 2 ^ LENGTH(32)"
    by (auto simp: elementOK_def split: if_splits)
  then have "(of_nat (digits_val 0 d) :: uint) \<noteq> 0"
    by (rule of_nat_neq_0)
  then show ?thesis
    by (simp add: elementValue_def seg)
qed

lemma readPath_element:
  assumes "elementOK seg"
  shows "readPath (str (elementText seg @ rest)) acc = readPath (str rest) (acc @ [elementValue seg])"
proof -
  obtain sg d c where seg: "seg = (sg, d, c)"
    by (cases seg)
  from assms seg have ok: "signOK sg" "d \<noteq> []" "list_all isdigit d" "\<not> isdigit c"
    "digits_val 0 d \<le> 4294967295"
    by (auto simp: elementOK_def split: if_splits)
  have "extract_uint (str (sg @ d @ c # rest)) = (good (c # rest), Some (elementValue seg))"
    using extract_uint_signed [OF ok(1,2,3) endsInteger_Cons [OF ok(4)] ok(5)]
    by (simp add: elementValue_def seg)
  from readPath_step [OF this] elementValue_nonzero [OF assms] show ?thesis
    by (simp add: elementText_def seg get_char_good str_good)
qed

lemma readPath_elements:
  "list_all elementOK segs \<Longrightarrow>
   readPath (str (concat (map elementText segs) @ rest)) acc
     = readPath (str rest) (acc @ map elementValue segs)"
proof (induction segs arbitrary: acc)
  case Nil
  show ?case by simp
next
  case (Cons seg segs)
  then have "elementOK seg" and "list_all elementOK segs"
    by simp_all
  with Cons.IH [of "acc @ [elementValue seg]"] readPath_element [of seg "concat (map elementText segs) @ rest" acc]
  show ?case
    by simp
qed

lemma digits_val_zero: "list_all (\<lambda>c. c = CHR ''0'') z \<Longrightarrow> digits_val 0 z = 0"
  by (induction z) simp_all

lemma readPath_zero:
  assumes "signOK zs" and "zeroElement z" and "endsInteger tail"
  shows "readPath (str (zs @ z @ tail)) acc = Inl (FileFormatError ZeroInTreePath)"
proof -
  from assms(2) have z: "z \<noteq> []" "list_all (\<lambda>c. c = CHR ''0'') z"
    by (auto simp: zeroElement_def split: if_splits)
  from z(2) have dz: "list_all isdigit z"
    by (induction z) (simp_all add: isdigit_def)
  have "extract_uint (str (zs @ z @ tail)) = (good tail, Some 0)"
    using extract_uint_signed [OF assms(1) z(1) dz assms(3)] digits_val_zero [OF z(2)]
    by simp
  from readPath_step [OF this] show ?thesis
    by simp
qed

lemma extract_uint_noInteger:
  assumes "noInteger r"
  shows "snd (extract_uint (str r)) = None"
proof -
  obtain neg body where ts: "take_sign (dropWhile isspace r) = (neg, body)"
    by (cases "take_sign (dropWhile isspace r)")
  with assms show ?thesis
    by (simp add: noInteger_def extract_uint_def str_def Let_def split: if_splits)
qed

lemma readPath_noInteger:
  assumes "noInteger r"
  shows "readPath (str r) acc = Inr acc"
proof -
  obtain ps res where e: "extract_uint (str r) = (ps, res)"
    by (cases "extract_uint (str r)")
  with extract_uint_noInteger [OF assms] have "extract_uint (str r) = (ps, None)"
    by simp
  then show ?thesis
    by (rule readPath_stop)
qed

lemma startsNoInteger_noInteger:
  assumes "startsNoInteger c"
  shows "noInteger (c # rest)"
proof -
  from assms have c: "\<not> isdigit c" "\<not> isspace c" "c \<noteq> CHR ''+''" "c \<noteq> CHR ''-''"
    by (auto simp: startsNoInteger_def split: if_splits)
  then show ?thesis
    by (simp add: noInteger_def)
qed

text \<open>
  C10, as the code has it. The decoder reads one integer (an optional sign and digits),
  drops the one character after it, and goes on; at text where no integer can be read it
  stops without an error. So a path token made of integers that are not 0 and at most
  \<open>UINT_MAX\<close>, each followed by one character that is not a digit, and then text at
  which no integer can be read, gives the path of those integers and nothing more. A
  character that is neither a digit nor a sign nor white space is such text: the second
  \<open>:\<close> of \<open>1::2\<close>, which gives \<open>[1]\<close>.
\<close>

theorem C10_path_decoder:
  "(list_all elementOK segs \<longrightarrow>
      readPath (str (concat (map elementText segs) @ rest)) acc
        = readPath (str rest) (acc @ map elementValue segs))
   \<and> (noInteger r \<longrightarrow> readPath (str r) acc = Inr acc)
   \<and> (list_all elementOK segs \<and> noInteger r \<longrightarrow>
        readPath (str (concat (map elementText segs) @ r)) [] = Inr (map elementValue segs))
   \<and> (list_all elementOK segs \<and> startsNoInteger c \<longrightarrow>
        readPath (str (concat (map elementText segs) @ c # rest)) [] = Inr (map elementValue segs))"
proof (intro conjI impI)
  assume "list_all elementOK segs"
  then show "readPath (str (concat (map elementText segs) @ rest)) acc
      = readPath (str rest) (acc @ map elementValue segs)"
    by (rule readPath_elements)
next
  assume "noInteger r"
  then show "readPath (str r) acc = Inr acc"
    by (rule readPath_noInteger)
next
  assume "list_all elementOK segs \<and> noInteger r"
  then show "readPath (str (concat (map elementText segs) @ r)) [] = Inr (map elementValue segs)"
    using readPath_elements [of segs r "[]"] readPath_noInteger [of r "map elementValue segs"]
    by simp
next
  assume a: "list_all elementOK segs \<and> startsNoInteger c"
  then have "noInteger (c # rest)"
    by (simp add: startsNoInteger_noInteger)
  with a show "readPath (str (concat (map elementText segs) @ c # rest)) []
      = Inr (map elementValue segs)"
    using readPath_elements [of segs "c # rest" "[]"]
      readPath_noInteger [of "c # rest" "map elementValue segs"]
    by simp
qed

theorem C10_path_decoder_witness:
  \<open>list_all elementOK [([], ''1'', CHR '':'')] \<and> startsNoInteger (CHR '':'')
   \<and> noInteger ''+:2''
   \<and> readPath (str ''1::2'') [] = Inr [1]
   \<and> readPath (str ''1:+:2'') [] = Inr [1]
   \<and> readTree [''1::2 0.5 "a" 3''] True None ClusterMap_new
       = Inr (ClusterMap_new\<lparr>m_nodePaths := [(3, [1])], m_flowData := [3 \<mapsto> 1 / 2]\<rparr>)\<close>
proof -
  have \<open>readTree_record None 1 ''1::2 0.5 "a" 3'' (ClusterMap_new\<lparr>m_nodePaths := []\<rparr>)
      = Parsed ''1::2'' (1 / 2) 3 (ClusterMap_new\<lparr>m_nodePaths := []\<rparr>)\<close>
    by (simp add: readTree_record_def readTree_fields_def stream_defs ClusterMap_new_def)
  with C10_path_decoder [of "[([], ''1'', CHR '':'')]" "''2''" "[]" "''+:2''" "CHR '':''"]
  show ?thesis
    by (simp add: elementOK_def signOK_def elementText_def elementValue_def startsNoInteger_def
        noInteger_def isdigit_def isspace_def readTree_def readTree_line_def readTree_emit_def
        finish_def ClusterMap_new_def)
qed

text \<open>
  C10 as stated fails where the second character between two integers is a sign and a
  digit follows it: the read of an \<open>unsigned int\<close> accepts the sign, so \<open>1:+2\<close> gives
  the whole path and \<open>1:-2\<close> a second integer as well.
\<close>

theorem C10_sign_after_delimiter_counterexample:
  "readPath (str ''1:+2'') [] = Inr [1, 2]
   \<and> readPath (str ''1:-2'') [] = Inr [1, 4294967294]"
  by (simp add: readPath_stop readPath_step stream_defs)

subsection \<open>Higher-order mode\<close>

lemma readTree_fields_Inr:
  assumes "readTree_fields n l = Inr f"
  obtains s1 p s2 fl s3 sk s4 nm s5 sid where
    "extract_string (str l) = (s1, Some p)"
    "extract_double s1 = (s2, Some fl)"
    "getline_delim s2 (CHR 0x22) = (s3, Some sk)"
    "getline_delim s3 (CHR 0x22) = (s4, Some nm)"
    "extract_uint s4 = (s5, Some sid)"
    "f = \<lparr>pathString = p, flow = fl, name = nm, stateId = sid, lineStream = s5\<rparr>"
  using assms unfolding readTree_fields_def
  by (auto split: prod.splits option.splits)

lemma readTree_fields_lineNr:
  assumes "readTree_fields n l = Inr f"
  shows "readTree_fields m l = Inr f"
  using assms
  by (rule readTree_fields_Inr) (simp add: readTree_fields_def)

lemma readTree_line_record:
  "recordLine l \<Longrightarrow>
   readTree_line inc idx n l cm =
     (case readTree_record idx n l cm of
        Skipped cm1 \<Rightarrow> Next cm1
      | Failed e cm1 \<Rightarrow> Throw e cm1
      | Parsed p fl sid cm1 \<Rightarrow> readTree_emit inc p fl sid cm1)"
  by (simp add: readTree_line_def recordLine_def split: if_splits)

lemma readTree_emit_flag:
  "readTree_emit inc p fl sid cm = Next cm' \<Longrightarrow> m_isHigherOrder cm' = m_isHigherOrder cm"
  by (auto simp: readTree_emit_def Let_def split: sum.splits if_splits)

lemma supplies_sets_flag:
  assumes "suppliesNodeId l" and "readTree_line inc idx n l cm = Next cm'"
  shows "m_isHigherOrder cm'"
proof -
  from assms(1) have rl: "recordLine l"
    by (simp add: suppliesNodeId_def split: if_splits)
  with assms(1) have c: "case readTree_fields 0 l of
      Inl e \<Rightarrow> False
    | Inr f \<Rightarrow> (case snd (extract_uint (lineStream f)) of None \<Rightarrow> False | Some n \<Rightarrow> True)"
    by (simp add: suppliesNodeId_def)
  then obtain f where f0: "readTree_fields 0 l = Inr f"
    by (cases "readTree_fields 0 l") simp_all
  with c obtain nid where nid: "snd (extract_uint (lineStream f)) = Some nid"
    by (cases "snd (extract_uint (lineStream f))") simp_all
  from f0 have f: "readTree_fields n l = Inr f"
    by (rule readTree_fields_lineNr)
  obtain s6 where e: "extract_uint (lineStream f) = (s6, Some nid)"
    using nid by (cases "extract_uint (lineStream f)") simp
  show ?thesis
  proof (cases "readTree_record idx n l cm")
    case (Skipped cm1)
    with f e have "m_isHigherOrder cm1"
      by (auto simp: readTree_record_def Let_def split: option.splits prod.splits)
    with Skipped assms(2) rl show ?thesis
      by (simp add: readTree_line_record)
  next
    case (Failed err cm1)
    with assms(2) rl show ?thesis
      by (simp add: readTree_line_record)
  next
    case (Parsed p fl sid cm1)
    with f e have "m_isHigherOrder cm1"
      by (auto simp: readTree_record_def Let_def split: option.splits prod.splits)
    with Parsed assms(2) rl show ?thesis
      by (simp add: readTree_line_record readTree_emit_flag)
  qed
qed

lemma omits_throws:
  assumes "omitsNodeId l" and "m_isHigherOrder cm"
  shows "readTree_line inc idx n l cm = Throw (FileFormatError (MissingStateId l)) cm"
proof -
  from assms(1) have rl: "recordLine l"
    by (simp add: omitsNodeId_def split: if_splits)
  with assms(1) have c: "case readTree_fields 0 l of
      Inl e \<Rightarrow> False
    | Inr f \<Rightarrow> (case snd (extract_uint (lineStream f)) of None \<Rightarrow> True | Some n \<Rightarrow> False)"
    by (simp add: omitsNodeId_def)
  then obtain f where f0: "readTree_fields 0 l = Inr f"
    by (cases "readTree_fields 0 l") simp_all
  with c have nid: "snd (extract_uint (lineStream f)) = None"
    by (cases "snd (extract_uint (lineStream f))") simp_all
  from f0 have f: "readTree_fields n l = Inr f"
    by (rule readTree_fields_lineNr)
  obtain s6 where e: "extract_uint (lineStream f) = (s6, None)"
    using nid by (cases "extract_uint (lineStream f)") simp
  from f e assms(2) have "readTree_record idx n l cm = Failed (FileFormatError (MissingStateId l)) cm"
    by (simp add: readTree_record_def)
  with rl show ?thesis
    by (simp add: readTree_line_record)
qed

lemma readTree_loop_Next_append:
  assumes "readTree_loop inc idx n (xs @ ys) cm = Next cm'"
  obtains cm1 where "readTree_loop inc idx n xs cm = Next cm1"
    and "readTree_loop inc idx (n + of_nat (length xs)) ys cm1 = Next cm'"
  using assms by (auto simp: readTree_loop_append split: step.splits)

lemma readTree_loop_flag:
  assumes "readTree_loop inc idx n ls cm = Next cm'" and "m_isHigherOrder cm"
  shows "m_isHigherOrder cm'"
  using readTree_loop_keeps [of cm inc idx n ls] assms
  by (simp add: keeps_def step_object_def)

text \<open>
  C5. When the lines up to and including a record that supplies a node id, and the lines
  after it up to some later record, are read without an error and without a \<open>*\<close> line,
  higher-order mode is on, and if that later record omits the node id the parse throws
  the \<open>FileFormatError\<close> "Missing state id for node on line .." at it, whatever
  follows. A file of two records, the first with and the second without a node id,
  fails so.
\<close>

theorem C5_higher_order_is_mandatory:
  assumes "suppliesNodeId l1"
    and "readTree_loop inc idx 0 (pre @ l1 # mid) (cm\<lparr>m_nodePaths := []\<rparr>) = Next cm'"
    and "omitsNodeId l2"
  shows "m_isHigherOrder cm'
       \<and> readTree (pre @ l1 # mid @ l2 # rest) inc idx cm
           = Inl (FileFormatError (MissingStateId l2), cm')"
proof -
  from assms(2) obtain cm1 where
    "readTree_loop inc idx (0 + of_nat (length pre)) (l1 # mid) cm1 = Next cm'"
    by (rule readTree_loop_Next_append)
  then obtain cm2 where l1: "readTree_line inc idx (0 + of_nat (length pre) + 1) l1 cm1 = Next cm2"
    and mid: "readTree_loop inc idx (0 + of_nat (length pre) + 1) mid cm2 = Next cm'"
    by (auto split: step.splits)
  from supplies_sets_flag [OF assms(1) l1] have "m_isHigherOrder cm2" .
  with mid have flag: "m_isHigherOrder cm'"
    by (rule readTree_loop_flag)
  have "readTree_loop inc idx 0 ((pre @ l1 # mid) @ l2 # rest) (cm\<lparr>m_nodePaths := []\<rparr>)
      = Throw (FileFormatError (MissingStateId l2)) cm'"
    using assms(2) omits_throws [OF assms(3) flag]
    by (simp only: readTree_loop_append [of inc idx 0 "pre @ l1 # mid"] step.case
        readTree_loop.simps)
  then show ?thesis
    using flag by (simp add: readTree_def finish_def)
qed

theorem C5_higher_order_is_mandatory_witness:
  \<open>suppliesNodeId ''1:1:1 0.5 "a" 1 7'' \<and> omitsNodeId ''1:1:2 0.25 "b" 2''
   \<and> readTree_loop True None 0 ([] @ ''1:1:1 0.5 "a" 1 7'' # []) (ClusterMap_new\<lparr>m_nodePaths := []\<rparr>)
       = Next (ClusterMap_new\<lparr>m_nodePaths := [(1, [1, 1, 1])], m_flowData := [1 \<mapsto> 1 / 2],
                 m_isHigherOrder := True\<rparr>)
   \<and> readTree [''1:1:1 0.5 "a" 1 7'', ''1:1:2 0.25 "b" 2''] True None ClusterMap_new
       = Inl (FileFormatError (MissingStateId ''1:1:2 0.25 "b" 2''),
              ClusterMap_new\<lparr>m_nodePaths := [(1, [1, 1, 1])], m_flowData := [1 \<mapsto> 1 / 2],
                 m_isHigherOrder := True\<rparr>)\<close>
proof -
  have s: \<open>suppliesNodeId ''1:1:1 0.5 "a" 1 7''\<close>
    by (simp add: suppliesNodeId_def recordLine_def readTree_fields_def stream_defs)
  have m: \<open>omitsNodeId ''1:1:2 0.25 "b" 2''\<close>
    by (simp add: omitsNodeId_def recordLine_def readTree_fields_def stream_defs)
  have l: \<open>readTree_loop True None 0 ([] @ ''1:1:1 0.5 "a" 1 7'' # []) (ClusterMap_new\<lparr>m_nodePaths := []\<rparr>)
       = Next (ClusterMap_new\<lparr>m_nodePaths := [(1, [1, 1, 1])], m_flowData := [1 \<mapsto> 1 / 2],
                 m_isHigherOrder := True\<rparr>)\<close>
    by (simp add: reader_defs readPath_stop readPath_step stream_defs ClusterMap_new_def)
  from C5_higher_order_is_mandatory [OF s l m, of "[]"] s m l show ?thesis
    by simp
qed

subsection \<open>A zero in a path\<close>

lemma readTree_record_lineNr:
  assumes "readTree_record idx n l cm = Parsed p fl sid cm'"
  shows "readTree_record idx m l cm = Parsed p fl sid cm'"
proof (cases "readTree_fields n l")
  case (Inl e)
  with assms show ?thesis
    by (simp add: readTree_record_def)
next
  case (Inr f)
  then have "readTree_fields m l = Inr f"
    by (rule readTree_fields_lineNr)
  with Inr have "readTree_record idx m l cm = readTree_record idx n l cm"
    by (simp add: readTree_record_def)
  with assms show ?thesis
    by simp
qed

text \<open>
  C6, as the code has it. When the lines before a record are read without an error and
  without a \<open>*\<close> line, and the fields of the record are read without an error and the
  record is not skipped (there is no index, or its layer and node are in the index), and
  its path token is integers that are not 0 and at most \<open>UINT_MAX\<close>, each an optional
  sign and digits followed by one character that is not a digit, and then the integer 0
  (an optional sign and one or more \<open>0\<close>, at the end of the token or before a character
  that is not a digit), the parse throws the \<open>FileFormatError\<close> "There is a '0' in the
  tree path".
\<close>

theorem C6_zero_in_decoded_path:
  assumes "readTree_loop inc idx 0 pre (cm\<lparr>m_nodePaths := []\<rparr>) = Next cm1"
    and "recordLine l"
    and "readTree_record idx n l cm1 = Parsed p fl sid cm2"
    and "p = concat (map elementText segs) @ zs @ z @ tail"
    and "list_all elementOK segs" and "signOK zs" and "zeroElement z" and "endsInteger tail"
  shows "readTree (pre @ l # rest) inc idx cm = Inl (FileFormatError ZeroInTreePath, cm2)"
proof -
  have "readPath (str p) [] = Inl (FileFormatError ZeroInTreePath)"
    using readPath_elements [OF assms(5), of "zs @ z @ tail" "[]"] readPath_zero [OF assms(6,7,8)]
    by (simp add: assms(4))
  then have emit: "readTree_emit inc p fl sid cm2 = Throw (FileFormatError ZeroInTreePath) cm2"
    by (simp add: readTree_emit_def)
  have "readTree_record idx (0 + of_nat (length pre) + 1) l cm1 = Parsed p fl sid cm2"
    using assms(3) by (rule readTree_record_lineNr)
  with emit assms(2)
  have "readTree_line inc idx (0 + of_nat (length pre) + 1) l cm1
      = Throw (FileFormatError ZeroInTreePath) cm2"
    by (simp add: readTree_line_record)
  with assms(1)
  have "readTree_loop inc idx 0 (pre @ l # rest) (cm\<lparr>m_nodePaths := []\<rparr>)
      = Throw (FileFormatError ZeroInTreePath) cm2"
    by (simp only: readTree_loop_append step.case readTree_loop.simps)
  then show ?thesis
    by (simp add: readTree_def finish_def)
qed

theorem C6_zero_in_decoded_path_witness:
  \<open>readTree_loop True (Some index_2_10_42) 0 [] (ClusterMap_new\<lparr>m_nodePaths := []\<rparr>) = Next ClusterMap_new
   \<and> recordLine ''+1:-0:2 0.5 "a" 7 10 2''
   \<and> readTree_record (Some index_2_10_42) 1 ''+1:-0:2 0.5 "a" 7 10 2'' ClusterMap_new
       = Parsed ''+1:-0:2'' (1 / 2) 42 (ClusterMap_new\<lparr>m_isHigherOrder := True\<rparr>)
   \<and> ''+1:-0:2'' = concat (map elementText [(''+'', ''1'', CHR '':'')]) @ ''-'' @ ''0'' @ '':2''
   \<and> list_all elementOK [(''+'', ''1'', CHR '':'')] \<and> signOK ''-'' \<and> zeroElement ''0''
   \<and> endsInteger '':2''
   \<and> readTree ([] @ ''+1:-0:2 0.5 "a" 7 10 2'' # []) True (Some index_2_10_42) ClusterMap_new
       = Inl (FileFormatError ZeroInTreePath, ClusterMap_new\<lparr>m_isHigherOrder := True\<rparr>)
   \<and> readTree [''1:0:2 0.5 "a" 7''] True None ClusterMap_new
       = Inl (FileFormatError ZeroInTreePath, ClusterMap_new)\<close>
proof -
  have a: "readTree_loop True (Some index_2_10_42) 0 [] (ClusterMap_new\<lparr>m_nodePaths := []\<rparr>) = Next ClusterMap_new"
    by (simp add: ClusterMap_new_def)
  have b: \<open>recordLine ''+1:-0:2 0.5 "a" 7 10 2''\<close>
    by (simp add: recordLine_def)
  have c: \<open>readTree_record (Some index_2_10_42) 1 ''+1:-0:2 0.5 "a" 7 10 2'' ClusterMap_new
       = Parsed ''+1:-0:2'' (1 / 2) 42 (ClusterMap_new\<lparr>m_isHigherOrder := True\<rparr>)\<close>
    by (simp add: readTree_record_def readTree_fields_def lookupState_def index_2_10_42_def
        stream_defs ClusterMap_new_def)
  have d: "''+1:-0:2'' = concat (map elementText [(''+'', ''1'', CHR '':'')]) @ ''-'' @ ''0'' @ '':2''"
    by (simp add: elementText_def)
  have e: "list_all elementOK [(''+'', ''1'', CHR '':'')]"
    by (simp add: elementOK_def signOK_def isdigit_def)
  have f: "signOK ''-''"
    by (simp add: signOK_def)
  have g: "zeroElement ''0''"
    by (simp add: zeroElement_def)
  have h: "endsInteger '':2''"
    by (simp add: endsInteger_def isdigit_def)
  have a': "readTree_loop True None 0 [] (ClusterMap_new\<lparr>m_nodePaths := []\<rparr>) = Next ClusterMap_new"
    by (simp add: ClusterMap_new_def)
  have b': \<open>recordLine ''1:0:2 0.5 "a" 7''\<close>
    by (simp add: recordLine_def)
  have c': \<open>readTree_record None 1 ''1:0:2 0.5 "a" 7'' ClusterMap_new
       = Parsed ''1:0:2'' (1 / 2) 7 ClusterMap_new\<close>
    by (simp add: readTree_record_def readTree_fields_def stream_defs ClusterMap_new_def)
  have d': "''1:0:2'' = concat (map elementText [([], ''1'', CHR '':'')]) @ [] @ ''0'' @ '':2''"
    by (simp add: elementText_def)
  have e': "list_all elementOK [([], ''1'', CHR '':'')]"
    by (simp add: elementOK_def signOK_def isdigit_def)
  have f': "signOK []"
    by (simp add: signOK_def)
  from C6_zero_in_decoded_path [OF a b c d e f g h, of "[]"]
    C6_zero_in_decoded_path [OF a' b' c' d' e' f' g h, of "[]"]
    a b c d e f g h
  show ?thesis
    by simp
qed

text \<open>
  C6 as stated fails in five ways. In multilayer mode a record whose layer and node are
  not in the index is skipped before its path is decoded, so its \<open>0\<close> is never seen.
  In \<open>1::0:2\<close> the decoder stops at the second \<open>:\<close>, and in \<open>4294967296:0\<close> at the
  first integer, which is above \<open>UINT_MAX\<close>: the \<open>0\<close> is not reached and the record
  is stored with a shorter path. A record without a node id after a higher-order record
  throws "Missing state id" before its path is decoded. A line after a \<open>*\<close> line is
  not read at all.
\<close>

theorem C6_zero_not_reached_counterexample:
  \<open>readTree [''1:0:2 0.5 "a" 7 10 2''] True (Some Map.empty) ClusterMap_new
     = Inr (ClusterMap_new\<lparr>m_isHigherOrder := True\<rparr>)
   \<and> readTree [''1::0:2 0.5 "a" 7''] True None ClusterMap_new
     = Inr (ClusterMap_new\<lparr>m_nodePaths := [(7, [1])], m_flowData := [7 \<mapsto> 1 / 2]\<rparr>)
   \<and> readTree [''4294967296:0 0.5 "a" 7''] True None ClusterMap_new
     = Inr (ClusterMap_new\<lparr>m_nodePaths := [(7, [])], m_flowData := [7 \<mapsto> 1 / 2]\<rparr>)
   \<and> readTree [''1:1 0.5 "a" 1 7'', ''1:0:2 0.5 "b" 2''] True None ClusterMap_new
     = Inl (FileFormatError (MissingStateId ''1:0:2 0.5 "b" 2''),
            ClusterMap_new\<lparr>m_nodePaths := [(1, [1, 1])], m_flowData := [1 \<mapsto> 1 / 2],
              m_isHigherOrder := True\<rparr>)
   \<and> readTree [''*Links'', ''1:0:2 0.5 "a" 7''] True None ClusterMap_new = Inr ClusterMap_new\<close>
  by (simp add: reader_defs readPath_stop readPath_step stream_defs ClusterMap_new_def)

subsection \<open>The tree reader: the node id, skipped records and the quoted name\<close>

text \<open>
  In multilayer mode a record whose read of \<open>nodeId\<close> fails never reaches the index: the
  stream has failed, so the read of \<open>layerId\<close> fails too and throws.
\<close>

lemma extract_uint_None_failbit:
  assumes "extract_uint st = (st', None)"
  shows "failbit st'"
proof (cases "failbit st")
  case True
  with assms show ?thesis
    by (simp add: extract_uint_def)
next
  case False
  obtain neg body where "take_sign (dropWhile isspace (buf st)) = (neg, body)"
    by (cases "take_sign (dropWhile isspace (buf st))")
  with assms False show ?thesis
    by (auto simp: extract_uint_def Let_def failed_def split: if_splits)
qed

lemma extract_uint_of_failed: "failbit st \<Longrightarrow> extract_uint st = (st, None)"
  by (simp add: extract_uint_def)

lemma readTree_record_multilayer_reads_nodeId:
  assumes "readTree_fields n l = Inr f" and "extract_uint (lineStream f) = (s6, None)"
    and "\<not> m_isHigherOrder cm"
  shows "readTree_record (Some index) n l cm = Failed (FileFormatError (CouldntParseLayerId l)) cm"
  using assms extract_uint_of_failed [OF extract_uint_None_failbit [OF assms(2)]]
  by (simp add: readTree_record_def)

text \<open>
  The tree reader adds nothing for a record that is not in the index: the record is
  skipped before the node path is appended and the flow stored.
\<close>

lemma readTree_record_Skipped:
  assumes "readTree_record idx n l cm = Skipped cm'"
  shows "m_nodePaths cm' = m_nodePaths cm \<and> m_flowData cm' = m_flowData cm
       \<and> m_clusterIds cm' = m_clusterIds cm"
proof (cases "readTree_fields n l")
  case (Inl e)
  with assms show ?thesis
    by (simp add: readTree_record_def)
next
  case (Inr f)
  obtain s6 nodeId where e: "extract_uint (lineStream f) = (s6, nodeId)"
    by (cases "extract_uint (lineStream f)")
  obtain s7 layerId where e': "extract_uint s6 = (s7, layerId)"
    by (cases "extract_uint s6")
  from assms Inr e e' show ?thesis
    by (auto simp: readTree_record_def Let_def split: if_splits option.splits)
qed

lemma readTree_line_skips_record:
  assumes "recordLine l" and "readTree_record idx n l cm = Skipped cm'"
  shows "readTree_line inc idx n l cm = Next cm'
       \<and> m_nodePaths cm' = m_nodePaths cm \<and> m_flowData cm' = m_flowData cm
       \<and> m_clusterIds cm' = m_clusterIds cm"
  using assms readTree_record_Skipped [OF assms(2)]
  by (simp add: readTree_line_record)

text \<open>
  With both quotes present the name is the text between them, and the state id is read
  from the text after the second quote.
\<close>

lemma getline_delim_quoted:
  assumes "CHR 0x22 \<notin> set pre"
  shows "getline_delim (good (pre @ CHR 0x22 # rest)) (CHR 0x22) = (good rest, Some pre)"
proof -
  from assms have all: "\<And>x. x \<in> set pre \<Longrightarrow> x \<noteq> CHR 0x22"
    by auto
  then have "takeWhile (\<lambda>c. c \<noteq> CHR 0x22) (pre @ CHR 0x22 # rest) = pre"
    and "dropWhile (\<lambda>c. c \<noteq> CHR 0x22) (pre @ CHR 0x22 # rest) = CHR 0x22 # rest"
    by (simp_all add: takeWhile_append2 dropWhile_append2)
  then show ?thesis
    by (simp add: getline_delim_def good_def)
qed

lemma readTree_fields_name:
  assumes "extract_string (str l) = (s1, Some p)"
    and "extract_double s1 = (good (pre @ CHR 0x22 # nm @ CHR 0x22 # rest), Some fl)"
    and "CHR 0x22 \<notin> set pre" and "CHR 0x22 \<notin> set nm"
    and "extract_uint (good rest) = (s5, Some sid)"
  shows "readTree_fields n l
     = Inr \<lparr>pathString = p, flow = fl, name = nm, stateId = sid, lineStream = s5\<rparr>"
  using assms(1,2,5)
  by (simp add: readTree_fields_def getline_delim_quoted [OF assms(3)]
      getline_delim_quoted [OF assms(4)])

end
